theory Spec2Isabelle
  imports Complex_Main
begin

section \<open>Values, errors and numpy arrays\<close>

text \<open>
  The development embeds \<^verbatim>\<open>neuropythy/registration/models.py\<close>. Every exception the
  Python code can raise is a value of \<open>error\<close>; a function that may raise returns
  \<open>error + 'a\<close> with \<open>Inl\<close> for the exception. Floating-point numbers are modelled as
  exact reals, Python integers as \<open>int\<close>, array indices as \<open>nat\<close> (the negative indices
  that numpy wraps around are outside the model).

  \<open>Unmodelled\<close> marks what the model does not determine: the calls whose outcome is
  decided by numpy's treatment of ragged or nested sequences together with
  \<^verbatim>\<open>Mesh.interpolate\<close>, which is not part of the file, and the constructions whose label
  array is not an int64 array or whose float64 means are not exact.
\<close>

datatype error =
    RuntimeError string
  | IndexError
  | ValueError
  | KeyError
  | NameError
  | TypeError
  | LinAlgError
  | Unmodelled

text \<open>An argument of a query: a Python scalar or a sequence (what has \<^verbatim>\<open>__iter__\<close>).\<close>

datatype arg = Scalar real | Seq "real list"


text \<open>
  Elementwise binary operation of numpy on two one-dimensional arrays: equal lengths are
  combined pointwise, a length-one array is broadcast, anything else raises ValueError.
\<close>

definition broadcast2 :: "('a \<Rightarrow> 'b \<Rightarrow> 'c) \<Rightarrow> 'a list \<Rightarrow> 'b list \<Rightarrow> error + 'c list" where
  "broadcast2 f xs ys =
     (if length xs = length ys then Inr (map2 f xs ys)
      else if length xs = 1 then Inr (map (f (hd xs)) ys)
      else if length ys = 1 then Inr (map (\<lambda>x. f x (hd ys)) xs)
      else Inl ValueError)"

text \<open>
  \<^verbatim>\<open>m if m.shape[1] == k else m.T\<close> on a two-dimensional array given as the list of its
  rows, all of one length; the empty list is the array of shape \<open>(0,)\<close>, whose
  \<^verbatim>\<open>shape[1]\<close> raises IndexError.
\<close>

definition orient :: "nat \<Rightarrow> 'a list list \<Rightarrow> error + 'a list list" where
  "orient k m =
     (case m of
        [] \<Rightarrow> Inl IndexError
      | r # rs \<Rightarrow> Inr (if length r = k then m else transpose m))"

text \<open>\<^verbatim>\<open>m[:,j]\<close>.\<close>

definition column :: "nat \<Rightarrow> 'a list list \<Rightarrow> error + 'a list" where
  "column j m =
     (if list_all (\<lambda>r. j < length r) m then Inr (map (\<lambda>r. r ! j) m) else Inl IndexError)"

section \<open>Meshes and the interpolator\<close>

text \<open>
  Modelled from the spec: \<^verbatim>\<open>neuropythy.geometry.Mesh\<close> is not in the file. A mesh holds
  its triangles (rows of vertex indices) and one coordinate row per vertex.
\<close>

record mesh =
  mesh_triangles :: "nat list list"
  mesh_coordinates :: "real list list"

definition Mesh :: "nat list list \<Rightarrow> real list list \<Rightarrow> mesh" where
  "Mesh tris coords = \<lparr>mesh_triangles = tris, mesh_coordinates = coords\<rparr>"

text \<open>
  Modelled from the spec: \<^verbatim>\<open>Mesh.interpolate(points, data, smoothing=1)\<close> is not in the
  file. By its contract it yields one value per query point, or "no value" (Python's
  \<^verbatim>\<open>None\<close>) for a point that no triangle covers, and it mutates nothing. The per-point
  function is a parameter of every query.
\<close>

type_synonym interpolator = "mesh \<Rightarrow> real \<times> real \<Rightarrow> real list \<Rightarrow> real option"

definition interpolate :: "interpolator \<Rightarrow> mesh \<Rightarrow> (real \<times> real) list \<Rightarrow> real list \<Rightarrow> real option list" where
  "interpolate ip m pts dat = map (\<lambda>p. ip m p dat) pts"

section \<open>Visual-field encoding\<close>

text \<open>\<^verbatim>\<open>rho * np.exp(1j * (90 - theta)/180*math.pi)\<close>, for one element.\<close>

definition visual_z :: "real \<Rightarrow> real \<Rightarrow> complex" where
  "visual_z rho theta = of_real rho * exp (\<i> * of_real (90 - theta) / 180 * of_real pi)"

text \<open>\<^verbatim>\<open>np.asarray([zs.real, zs.imag]).T\<close>, as rows and as points.\<close>

definition zs_rows :: "complex list \<Rightarrow> real list list" where
  "zs_rows zs = map (\<lambda>z. [Re z, Im z]) zs"

definition zs_points :: "complex list \<Rightarrow> (real \<times> real) list" where
  "zs_points zs = map (\<lambda>z. (Re z, Im z)) zs"

section \<open>The affine transform\<close>

type_synonym vec3 = "real \<times> real \<times> real"
type_synonym mat3 = "vec3 \<times> vec3 \<times> vec3"

fun det3 :: "mat3 \<Rightarrow> real" where
  "det3 ((a, b, c), (d, e, f), (g, h, i)) =
     a * (e * i - f * h) - b * (d * i - f * g) + c * (d * h - e * g)"

text \<open>\<^verbatim>\<open>numpy.linalg.inv\<close> on a 3x3 matrix; a singular matrix raises LinAlgError.\<close>

fun linalg_inv :: "mat3 \<Rightarrow> error + mat3" where
  "linalg_inv ((a, b, c), (d, e, f), (g, h, i)) =
     (let dt = det3 ((a, b, c), (d, e, f), (g, h, i)) in
      if dt = 0 then Inl LinAlgError
      else Inr (((e * i - f * h) / dt, (c * h - b * i) / dt, (b * f - c * e) / dt),
                ((f * g - d * i) / dt, (a * i - c * g) / dt, (c * d - a * f) / dt),
                ((d * h - e * g) / dt, (b * g - a * h) / dt, (a * e - b * d) / dt)))"

text \<open>\<^verbatim>\<open>np.dot(tx, [x, y, 1])[0:2]\<close>.\<close>

fun dot2 :: "mat3 \<Rightarrow> real \<times> real \<Rightarrow> real \<times> real" where
  "dot2 ((a, b, c), (d, e, f), r3) (x, y) = (a * x + b * y + c, d * x + e * y + f)"

section \<open>Construction of the mesh model\<close>

record model =
  forward :: mesh
  inverse :: "int \<rightharpoonup> mesh"
  transform :: "mat3 option"
  itransform :: "mat3 option"
  data_x :: "real list"
  data_y :: "real list"
  data_polar_angle :: "real list"
  data_eccentricity :: "real list"
  data_id :: "int list"

text \<open>\<^verbatim>\<open>area_ids[t]\<close> for a triangle row \<open>t\<close>: an index out of range raises IndexError.\<close>

definition valid_tri :: "int list \<Rightarrow> nat list \<Rightarrow> bool" where
  "valid_tri ids t = list_all (\<lambda>i. i < length ids) t"

definition tri_labels :: "int list \<Rightarrow> nat list \<Rightarrow> int list" where
  "tri_labels ids t = map (\<lambda>i. ids ! i) t"

text \<open>\<^verbatim>\<open>list(set(area_ids) - set([0]))\<close>; the order of a Python set is not modelled.\<close>

definition area_keys :: "int list \<Rightarrow> int list" where
  "area_keys ids = remdups (filter (\<lambda>a. a \<noteq> 0) ids)"

text \<open>\<^verbatim>\<open>[t for t in triangles if (set(area_ids[t]) - set([0])) == set([area])]\<close>.\<close>

definition area_tris :: "int list \<Rightarrow> nat list list \<Rightarrow> int \<Rightarrow> nat list list" where
  "area_tris ids tris area = filter (\<lambda>t. set (tri_labels ids t) - {0} = {area}) tris"

text \<open>
  The dictionary comprehension of \<^verbatim>\<open>self.inverse\<close>. Its body runs once per non-zero
  area, over every triangle, so an index out of range raises IndexError exactly when
  there is at least one non-zero area.
\<close>

definition build_inverse :: "int list \<Rightarrow> nat list list \<Rightarrow> real list list \<Rightarrow> error + (int \<rightharpoonup> mesh)" where
  "build_inverse ids tris coords =
     (if area_keys ids \<noteq> [] \<and> \<not> list_all (valid_tri ids) tris then Inl IndexError
      else Inr (\<lambda>area. if area \<in> set (area_keys ids)
                       then Some (Mesh (area_tris ids tris area) coords) else None))"

text \<open>
  The list comprehension of the boundary repair: for each triangle with both label-0
  ("bound") and non-zero ("inside") vertices, one pair \<open>(b, set(inside))\<close> per bound vertex.
\<close>

definition tri_pairs :: "int list \<Rightarrow> nat list \<Rightarrow> (nat \<times> nat list) list" where
  "tri_pairs ids t =
     (let bound = filter (\<lambda>i. ids ! i = 0) t;
          inside = filter (\<lambda>i. ids ! i \<noteq> 0) t
      in if length bound > 0 \<and> length inside > 0
         then map (\<lambda>b. (b, remdups inside)) bound else [])"

definition boundary_pairs :: "int list \<Rightarrow> nat list list \<Rightarrow> (nat \<times> nat list) list" where
  "boundary_pairs ids tris = concat (map (tri_pairs ids) tris)"

text \<open>
  \<^verbatim>\<open>if b not in boundaryNeis: boundaryNeis[b] = inside else: boundaryNeis[b] |= inside\<close>.
  The dictionary is an association list in order of first insertion; sets of vertices
  are duplicate-free lists.
\<close>

fun add_nei :: "(nat \<times> nat list) list \<Rightarrow> nat \<times> nat list \<Rightarrow> (nat \<times> nat list) list" where
  "add_nei [] (b, ins) = [(b, ins)]"
| "add_nei ((k, s) # d) (b, ins) =
     (if k = b then (k, List.union s ins) # d else (k, s) # add_nei d (b, ins))"

definition boundaryNeis :: "int list \<Rightarrow> nat list list \<Rightarrow> (nat \<times> nat list) list" where
  "boundaryNeis ids tris = foldl add_nei [] (boundary_pairs ids tris)"

text \<open>
  \<^verbatim>\<open>np.asarray(map(int, area_ids))\<close> is an int64 array when every label fits into 64
  bits; with a larger label numpy chooses another element type (uint64, float64 or
  object), and what the constructor then stores is not modelled.
\<close>

definition int64_labels :: "int list \<Rightarrow> bool" where
  "int64_labels ids = list_all (\<lambda>l. - (2 ^ 63) \<le> l \<and> l < 2 ^ 63) ids"

text \<open>
  \<^verbatim>\<open>np.mean\<close> of an int64 array converts the elements to float64, adds them up in float64
  and divides by their number. While the magnitudes of the elements and their number sum
  to less than \<open>2^53\<close>, every element and every partial sum is an integer that float64
  holds exactly, in whatever order they are added, and the rounded quotient lies in the
  same unit interval as the exact one (an exact quotient \<open>s / k\<close> that is not an
  integer is at least \<open>1 / k\<close> away from the next integer, more than half a float64
  step there); so the value stored from it is the value stored from the exact mean.
  Beyond that range the float64 result is not modelled.
\<close>

definition mean_exact :: "int list \<Rightarrow> bool" where
  "mean_exact ls = (sum_list (map abs ls) + int (length ls) < 2 ^ 53)"

definition np_mean :: "int list \<Rightarrow> error + real" where
  "np_mean ls =
     (if mean_exact ls then Inr (real_of_int (sum_list ls) / real (length ls))
      else Inl Unmodelled)"

text \<open>Storing a float into an integer array converts it as C does: towards zero.\<close>

definition store_int :: "real \<Rightarrow> int" where
  "store_int r = (if 0 \<le> r then \<lfloor>r\<rfloor> else \<lceil>r\<rceil>)"

text \<open>
  \<^verbatim>\<open>for (b,neis) in boundaryNeis.iteritems(): area_ids[b] = np.mean(area_ids[list(neis)])\<close>:
  the array is updated in place, one key after the other.
\<close>

fun fix_ids :: "(nat \<times> nat list) list \<Rightarrow> int list \<Rightarrow> error + int list" where
  "fix_ids [] ids = Inr ids"
| "fix_ids ((b, neis) # d) ids =
     (case np_mean (map (\<lambda>i. ids ! i) neis) of
        Inl e \<Rightarrow> Inl e
      | Inr mu \<Rightarrow> fix_ids d (ids[b := store_int mu]))"

text \<open>\<^verbatim>\<open>RetinotopyMeshModel.__init__\<close>, statement by statement.\<close>

definition construct ::
  "nat list list \<Rightarrow> real list list \<Rightarrow> real list \<Rightarrow> real list \<Rightarrow> int list \<Rightarrow> mat3 option
     \<Rightarrow> error + model" where
  "construct triangles0 coordinates0 angles eccens area_ids tx =
     (case orient 3 triangles0 of Inl e \<Rightarrow> Inl e | Inr triangles \<Rightarrow>
      case orient 2 coordinates0 of Inl e \<Rightarrow> Inl e | Inr coordinates \<Rightarrow>
      if \<not> int64_labels area_ids then Inl Unmodelled else
      case column 0 coordinates of Inl e \<Rightarrow> Inl e | Inr xs \<Rightarrow>
      case column 1 coordinates of Inl e \<Rightarrow> Inl e | Inr ys \<Rightarrow>
      case broadcast2 visual_z eccens angles of Inl e \<Rightarrow> Inl e | Inr zs \<Rightarrow>
      case build_inverse area_ids triangles (zs_rows zs) of Inl e \<Rightarrow> Inl e | Inr inverse_dict \<Rightarrow>
      case (case tx of None \<Rightarrow> Inr None
            | Some t \<Rightarrow> (case linalg_inv t of Inl e \<Rightarrow> Inl e | Inr it \<Rightarrow> Inr (Some it)))
        of Inl e \<Rightarrow> Inl e | Inr itx \<Rightarrow>
      if \<not> list_all (valid_tri area_ids) triangles then Inl IndexError else
      case fix_ids (boundaryNeis area_ids triangles) area_ids of Inl e \<Rightarrow> Inl e | Inr fixed \<Rightarrow>
      Inr \<lparr>forward = Mesh triangles coordinates,
           inverse = inverse_dict,
           transform = tx,
           itransform = itx,
           data_x = xs,
           data_y = ys,
           data_polar_angle = angles,
           data_eccentricity = eccens,
           data_id = fixed\<rparr>)"

section \<open>Queries of the mesh model\<close>

text \<open>
  A method of \<^verbatim>\<open>RetinotopyMeshModel\<close> takes the object and returns its outcome together
  with the object as the method leaves it.
\<close>

type_synonym row3 = "real option \<times> real option \<times> real option"

datatype c2a_result = Row row3 | Rows "row3 list"

text \<open>
  \<^verbatim>\<open>np.asarray([x,y]).T if tx is None else np.dot(tx, [x,y,[1 for i in x]])[0:2].T\<close>
  for a sequence \<open>x\<close>. When \<open>y\<close> is a scalar or a sequence of another length, the nested
  list is ragged.
\<close>

definition cortex_points :: "mat3 option \<Rightarrow> real list \<Rightarrow> arg \<Rightarrow> error + (real \<times> real) list" where
  "cortex_points tx x y =
     (case y of
        Scalar v \<Rightarrow> Inl Unmodelled
      | Seq ys \<Rightarrow>
          if length x = length ys
          then Inr (case tx of None \<Rightarrow> zip x ys | Some t \<Rightarrow> map (dot2 t) (zip x ys))
          else Inl Unmodelled)"

text \<open>\<^verbatim>\<open>(ang, ecc, area) if area is not None else (0, 0, 0)\<close>.\<close>

fun angle_row :: "real option \<times> real option \<times> real option \<Rightarrow> row3" where
  "angle_row (ang, ecc, None) = (Some 0, Some 0, Some 0)"
| "angle_row (ang, ecc, Some area) = (ang, ecc, Some area)"

text \<open>The body of \<^verbatim>\<open>cortex_to_angle\<close> below its first test: \<open>x\<close> is a sequence.\<close>

definition cortex_to_angle_seq ::
  "interpolator \<Rightarrow> model \<Rightarrow> real list \<Rightarrow> arg \<Rightarrow> (error + row3 list) \<times> model" where
  "cortex_to_angle_seq ip self x y =
     (let tx = itransform self in
      case cortex_points tx x y of
        Inl e \<Rightarrow> (Inl e, self)
      | Inr xy \<Rightarrow>
          let angs = interpolate ip (forward self) xy (data_polar_angle self);
              eccs = interpolate ip (forward self) xy (data_eccentricity self);
              areas = interpolate ip (forward self) xy (map real_of_int (data_id self))
          in (Inr (map angle_row (zip angs (zip eccs areas))), self))"

text \<open>
  \<^verbatim>\<open>cortex_to_angle\<close>. A scalar \<open>x\<close> re-enters with \<open>[x]\<close> and \<open>[y]\<close> and takes row 0;
  with a sequence \<open>y\<close> the list \<open>[y]\<close> is nested.
\<close>

fun cortex_to_angle ::
  "interpolator \<Rightarrow> model \<Rightarrow> arg \<Rightarrow> arg \<Rightarrow> (error + c2a_result) \<times> model" where
  "cortex_to_angle ip self (Scalar x) (Seq ys) = (Inl Unmodelled, self)"
| "cortex_to_angle ip self (Scalar x) (Scalar y) =
     (case cortex_to_angle_seq ip self [x] (Seq [y]) of
        (Inl e, self') \<Rightarrow> (Inl e, self')
      | (Inr [], self') \<Rightarrow> (Inl IndexError, self')
      | (Inr (r # rs), self') \<Rightarrow> (Inr (Row r), self'))"
| "cortex_to_angle ip self (Seq xs) y =
     (case cortex_to_angle_seq ip self xs y of
        (Inl e, self') \<Rightarrow> (Inl e, self')
      | (Inr rows, self') \<Rightarrow> (Inr (Rows rows), self'))"

type_synonym pair2 = "real option \<times> real option"

datatype a2c_result = Pairs "pair2 list" | Grid "pair2 list list"

text \<open>
  \<^verbatim>\<open>rho * np.exp(1j * (90 - theta)/180*math.pi)\<close> after \<^verbatim>\<open>np.asarray\<close> of both: \<open>theta\<close>
  is one-dimensional, \<open>rho\<close> is zero-dimensional (a scalar) or one-dimensional.
\<close>

definition query_zs :: "real list \<Rightarrow> arg \<Rightarrow> error + complex list" where
  "query_zs theta rho =
     (case rho of
        Scalar r \<Rightarrow> Inr (map (visual_z r) theta)
      | Seq rs \<Rightarrow> broadcast2 visual_z rs theta)"

text \<open>\<^verbatim>\<open>[area for area in map(int, sorted(list(set(self.data['id'])))) if area != 0]\<close>.\<close>

definition data_areas :: "int list \<Rightarrow> int list" where
  "data_areas ids = filter (\<lambda>area. area \<noteq> 0) (sort (remdups ids))"

text \<open>
  The list comprehension building \<open>res\<close>: per area, the interpolated \<open>x\<close> and \<open>y\<close> values
  of all query points; \<^verbatim>\<open>self.inverse[area]\<close> raises KeyError for a missing key.
\<close>

fun area_rows ::
  "interpolator \<Rightarrow> model \<Rightarrow> (real \<times> real) list \<Rightarrow> int list
     \<Rightarrow> error + (real option list \<times> real option list) list" where
  "area_rows ip self coords [] = Inr []"
| "area_rows ip self coords (area # areas) =
     (case inverse self area of
        None \<Rightarrow> Inl KeyError
      | Some m \<Rightarrow>
          (case area_rows ip self coords areas of
             Inl e \<Rightarrow> Inl e
           | Inr rest \<Rightarrow>
               Inr ((interpolate ip m coords (data_x self),
                     interpolate ip m coords (data_y self)) # rest)))"

text \<open>
  \<^verbatim>\<open>np.asarray(...).transpose((0,2,1))\<close>: with no area the array has shape \<open>(0,)\<close> and
  the transposition raises ValueError.
\<close>

definition transpose_021 ::
  "(real option list \<times> real option list) list \<Rightarrow> error + pair2 list list" where
  "transpose_021 raw =
     (if raw = [] then Inl ValueError else Inr (map (\<lambda>(vx, vy). zip vx vy) raw))"

text \<open>
  \<^verbatim>\<open>np.dot(tx, [xy[0], xy[1], 1])[0:2] if xy[0] is not None else [None, None]\<close>; the
  product with a \<^verbatim>\<open>None\<close> second component raises TypeError.
\<close>

fun apply_tx :: "mat3 \<Rightarrow> pair2 \<Rightarrow> error + pair2" where
  "apply_tx t (None, vy) = Inr (None, None)"
| "apply_tx t (Some vx, None) = Inl TypeError"
| "apply_tx t (Some vx, Some vy) = (case dot2 t (vx, vy) of (u, v) \<Rightarrow> Inr (Some u, Some v))"

fun map_err :: "('a \<Rightarrow> error + 'b) \<Rightarrow> 'a list \<Rightarrow> error + 'b list" where
  "map_err f [] = Inr []"
| "map_err f (v # vs) =
     (case f v of
        Inl e \<Rightarrow> Inl e
      | Inr w \<Rightarrow> (case map_err f vs of Inl e \<Rightarrow> Inl e | Inr ws \<Rightarrow> Inr (w # ws)))"

text \<open>\<^verbatim>\<open>rho[k]\<close>: a zero-dimensional array cannot be indexed.\<close>

definition rho_at :: "arg \<Rightarrow> nat \<Rightarrow> error + real" where
  "rho_at rho k =
     (case rho of
        Scalar r \<Rightarrow> Inl IndexError
      | Seq rs \<Rightarrow> if k < length rs then Inr (rs ! k) else Inl IndexError)"

text \<open>
  The loop of lines 243 to 247. Its body is
  \<^verbatim>\<open>res[i] = angle_to_cortex(theta[k], rho[k] - 0.5)\<close>: the bare name
  \<^verbatim>\<open>angle_to_cortex\<close> is bound neither in the method nor in the module (the method is
  \<^verbatim>\<open>self.angle_to_cortex\<close>), so evaluating it raises NameError before anything is
  assigned. The scan yields the exception that ends the loop, or \<open>None\<close> when the loop
  runs to its end.
\<close>

fun scan_rows :: "arg \<Rightarrow> nat \<Rightarrow> pair2 list \<Rightarrow> error option" where
  "scan_rows rho k [] = None"
| "scan_rows rho k (row # rows) =
     (if fst row = None \<or> snd row = None
      then (case rho_at rho k of
              Inl e \<Rightarrow> Some e
            | Inr r \<Rightarrow> if r > 86 \<and> r \<le> 90 then Some NameError
                       else scan_rows rho (Suc k) rows)
      else scan_rows rho (Suc k) rows)"

fun scan_areas :: "arg \<Rightarrow> pair2 list list \<Rightarrow> error option" where
  "scan_areas rho [] = None"
| "scan_areas rho (adat # res) =
     (case scan_rows rho 0 adat of Some e \<Rightarrow> Some e | None \<Rightarrow> scan_areas rho res)"

text \<open>The body of \<^verbatim>\<open>angle_to_cortex\<close> below its first test: \<open>theta\<close> is a sequence.\<close>

definition angle_to_cortex_seq ::
  "interpolator \<Rightarrow> model \<Rightarrow> real list \<Rightarrow> arg \<Rightarrow> (error + pair2 list list) \<times> model" where
  "angle_to_cortex_seq ip self theta rho =
     (case query_zs theta rho of
        Inl e \<Rightarrow> (Inl e, self)
      | Inr zs \<Rightarrow>
          (case area_rows ip self (zs_points zs) (data_areas (data_id self)) of
             Inl e \<Rightarrow> (Inl e, self)
           | Inr raw \<Rightarrow>
               (case transpose_021 raw of
                  Inl e \<Rightarrow> (Inl e, self)
                | Inr res0 \<Rightarrow>
                    (case (case transform self of
                             None \<Rightarrow> Inr res0
                           | Some t \<Rightarrow> map_err (map_err (apply_tx t)) res0) of
                       Inl e \<Rightarrow> (Inl e, self)
                     | Inr res \<Rightarrow>
                         (case scan_areas rho res of
                            Some e \<Rightarrow> (Inl e, self)
                          | None \<Rightarrow> (Inr res, self))))))"

text \<open>
  \<^verbatim>\<open>angle_to_cortex\<close>. A scalar \<open>theta\<close> re-enters with \<open>[theta]\<close> and \<open>[rho]\<close> and takes
  \<^verbatim>\<open>[:,0]\<close>; with a sequence \<open>rho\<close> the list \<open>[rho]\<close> is nested.
\<close>

fun angle_to_cortex ::
  "interpolator \<Rightarrow> model \<Rightarrow> arg \<Rightarrow> arg \<Rightarrow> (error + a2c_result) \<times> model" where
  "angle_to_cortex ip self (Scalar t) (Seq rs) = (Inl Unmodelled, self)"
| "angle_to_cortex ip self (Scalar t) (Scalar r) =
     (case angle_to_cortex_seq ip self [t] (Seq [r]) of
        (Inl e, self') \<Rightarrow> (Inl e, self')
      | (Inr res, self') \<Rightarrow>
          (case column 0 res of
             Inl e \<Rightarrow> (Inl e, self')
           | Inr ps \<Rightarrow> (Inr (Pairs ps), self')))"
| "angle_to_cortex ip self (Seq ts) rho =
     (case angle_to_cortex_seq ip self ts rho of
        (Inl e, self') \<Rightarrow> (Inl e, self')
      | (Inr res, self') \<Rightarrow> (Inr (Grid res), self'))"

section \<open>Queries of the analytic model\<close>

text \<open>
  \<^verbatim>\<open>SchiraModel\<close> delegates to a Java object that is not in the file: its
  \<^verbatim>\<open>angleToCortex\<close> and \<^verbatim>\<open>cortexToAngle\<close>, on arrays (\<open>jarr\<close>) and on scalars (\<open>jsc\<close>),
  are parameters.
\<close>

definition schira_angle_to_cortex ::
  "(real list \<Rightarrow> real list \<Rightarrow> 'r) \<Rightarrow> (real \<Rightarrow> real \<Rightarrow> 'r) \<Rightarrow> arg \<Rightarrow> arg \<Rightarrow> error + 'r" where
  "schira_angle_to_cortex jarr jsc theta rho =
     (case (theta, rho) of
        (Seq ts, Seq rs) \<Rightarrow>
          if length ts \<noteq> length rs
          then Inl (RuntimeError ''Arguments theta and rho must be the same length!'')
          else Inr (jarr ts rs)
      | (Seq ts, Scalar r) \<Rightarrow> Inr (jarr ts (map (\<lambda>t. r) ts))
      | (Scalar t, Seq rs) \<Rightarrow> Inr (jarr (map (\<lambda>r. t) rs) rs)
      | (Scalar t, Scalar r) \<Rightarrow> Inr (jsc t r))"

definition schira_cortex_to_angle ::
  "(real list \<Rightarrow> real list \<Rightarrow> 'r) \<Rightarrow> (real \<Rightarrow> real \<Rightarrow> 'r) \<Rightarrow> arg \<Rightarrow> arg \<Rightarrow> error + 'r" where
  "schira_cortex_to_angle jarr jsc x y =
     (case (x, y) of
        (Seq xs, Seq ys) \<Rightarrow>
          if length xs \<noteq> length ys
          then Inl (RuntimeError ''Arguments x and y must be the same length!'')
          else Inr (jarr xs ys)
      | (Seq xs, Scalar v) \<Rightarrow> Inr (jarr xs (map (\<lambda>i. v) xs))
      | (Scalar u, Seq ys) \<Rightarrow> Inr (jarr (map (\<lambda>i. u) ys) ys)
      | (Scalar u, Scalar v) \<Rightarrow> Inr (jsc u v))"

section \<open>Vocabulary of the specification\<close>


text \<open>
  The union, over the triangles containing vertex \<open>v\<close>, of the triangles' vertices with a
  non-zero label, and the arithmetic mean of the labels of a set of vertices.
\<close>

definition inside_neighbours :: "int list \<Rightarrow> nat list list \<Rightarrow> nat \<Rightarrow> nat set" where
  "inside_neighbours ids tris v =
     set (concat (map (\<lambda>t. if v \<in> set t then filter (\<lambda>i. ids ! i \<noteq> 0) t else []) tris))"



text \<open>The position of a cortical point after the inverse transform, if there is one.\<close>

definition transformed_point :: "mat3 option \<Rightarrow> real \<times> real \<Rightarrow> real \<times> real" where
  "transformed_point tx p = (case tx of None \<Rightarrow> p | Some t \<Rightarrow> dot2 t p)"

text \<open>
  The exact mean, and the labels that the repair loop leaves when each of its means is
  exact (lemma \<open>fix_ids_Inr\<close>).
\<close>

definition exact_mean :: "int list \<Rightarrow> real" where
  "exact_mean ls = real_of_int (sum_list ls) / real (length ls)"

fun repaired :: "(nat \<times> nat list) list \<Rightarrow> int list \<Rightarrow> int list" where
  "repaired [] ids = ids"
| "repaired ((b, neis) # d) ids =
     repaired d (ids[b := store_int (exact_mean (map (\<lambda>i. ids ! i) neis))])"

text \<open>The set of neighbours that the dictionary of the boundary repair holds for a key.\<close>

definition nei_set :: "(nat \<times> nat list) list \<Rightarrow> nat \<Rightarrow> nat set" where
  "nei_set d k = (case map_of d k of None \<Rightarrow> {} | Some s \<Rightarrow> set s)"

section \<open>An example mesh\<close>

text \<open>
  One triangle over three vertices, with the labels left open, and an interpolator for
  query points that no triangle covers.
\<close>

definition uncovered :: interpolator where
  "uncovered m p dat = None"






definition ex_triangles :: "nat list list" where
  "ex_triangles = [[0, 1, 2]]"

definition ex_coordinates :: "real list list" where
  "ex_coordinates = [[0, 0], [1, 0], [0, 1]]"

definition ex_angles :: "real list" where
  "ex_angles = [0, 90, 180]"

definition ex_eccens :: "real list" where
  "ex_eccens = [1, 2, 2]"

definition ex_construct :: "int list \<Rightarrow> error + model" where
  "ex_construct ids = construct ex_triangles ex_coordinates ex_angles ex_eccens ids None"

text \<open>The object that the constructor builds from the example mesh (\<open>ex_construct_eq\<close>).\<close>

definition ex_model :: "int list \<Rightarrow> model" where
  "ex_model ids =
     \<lparr>forward = Mesh ex_triangles ex_coordinates,
      inverse = (\<lambda>area. if area \<in> set (area_keys ids)
                   then Some (Mesh (area_tris ids ex_triangles area)
                                (zs_rows (map2 visual_z ex_eccens ex_angles)))
                   else None),
      transform = None,
      itransform = None,
      data_x = [0, 1, 0],
      data_y = [0, 0, 1],
      data_polar_angle = ex_angles,
      data_eccentricity = ex_eccens,
      data_id = repaired (boundaryNeis ids ex_triangles) ids\<rparr>"


definition built_label :: "error + model \<Rightarrow> nat \<Rightarrow> int option" where
  "built_label r v = (case r of Inl e \<Rightarrow> None | Inr m \<Rightarrow> Some (data_id m ! v))"


definition built_angle_to_cortex ::
  "interpolator \<Rightarrow> error + model \<Rightarrow> arg \<Rightarrow> arg \<Rightarrow> error + a2c_result" where
  "built_angle_to_cortex ip r theta rho =
     (case r of Inl e \<Rightarrow> Inl e | Inr m \<Rightarrow> fst (angle_to_cortex ip m theta rho))"

section \<open>The dictionary of boundary neighbours\<close>

lemma add_nei_map_fst:
  "map fst (add_nei d (b, ins)) =
     (if b \<in> set (map fst d) then map fst d else map fst d @ [b])"
proof (induction d)
  case Nil
  show ?case by simp
next
  case (Cons p d)
  obtain k s where p: "p = (k, s)" by (cases p)
  show ?case using Cons p by (cases "k = b") simp_all
qed

lemma add_nei_keys: "fst ` set (add_nei d (b, ins)) = insert b (fst ` set d)"
proof -
  have "set (map fst (add_nei d (b, ins))) = insert b (set (map fst d))"
    by (auto simp: add_nei_map_fst)
  then show ?thesis by simp
qed

lemma add_nei_distinct_keys:
  "distinct (map fst d) \<Longrightarrow> distinct (map fst (add_nei d (b, ins)))"
  by (simp add: add_nei_map_fst)

lemma add_nei_map_of:
  "map_of (add_nei d (b, ins)) k =
     (if k = b then Some (case map_of d b of None \<Rightarrow> ins | Some s \<Rightarrow> List.union s ins)
      else map_of d k)"
  by (induction d) auto

lemma add_nei_nei_set:
  "nei_set (add_nei d (b, ins)) k = (if k = b then nei_set d b \<union> set ins else nei_set d k)"
  by (auto simp: nei_set_def add_nei_map_of split: option.splits)


lemma foldl_add_nei_keys:
  "fst ` set (foldl add_nei d ps) = fst ` set d \<union> fst ` set ps"
proof (induction ps arbitrary: d)
  case Nil
  then show ?case by simp
next
  case (Cons p ps)
  obtain b ins where p: "p = (b, ins)" by (cases p)
  show ?case using Cons[of "add_nei d (b, ins)"] p by (simp add: add_nei_keys)
qed

lemma foldl_add_nei_distinct_keys:
  "distinct (map fst d) \<Longrightarrow> distinct (map fst (foldl add_nei d ps))"
proof (induction ps arbitrary: d)
  case Nil
  then show ?case by simp
next
  case (Cons p ps)
  obtain b ins where p: "p = (b, ins)" by (cases p)
  show ?case using Cons p by (simp add: add_nei_distinct_keys)
qed

lemma foldl_add_nei_nei_set:
  "nei_set (foldl add_nei d ps) k = nei_set d k \<union> \<Union> {set ins | ins. (k, ins) \<in> set ps}"
proof (induction ps arbitrary: d)
  case Nil
  then show ?case by simp
next
  case (Cons p ps)
  obtain b ins where p: "p = (b, ins)" by (cases p)
  show ?case using Cons[of "add_nei d (b, ins)"] p
    by (auto simp: add_nei_nei_set)
qed


lemma tri_pairs_mem:
  "(b, ins) \<in> set (tri_pairs ids t) \<longleftrightarrow>
     b \<in> set t \<and> ids ! b = 0 \<and> ins = remdups (filter (\<lambda>i. ids ! i \<noteq> 0) t)
       \<and> filter (\<lambda>i. ids ! i \<noteq> 0) t \<noteq> []"
  by (auto simp: tri_pairs_def Let_def filter_empty_conv)

lemma boundary_pairs_mem:
  "(b, ins) \<in> set (boundary_pairs ids tris) \<longleftrightarrow>
     (\<exists>t\<in>set tris. b \<in> set t \<and> ids ! b = 0 \<and> ins = remdups (filter (\<lambda>i. ids ! i \<noteq> 0) t)
        \<and> filter (\<lambda>i. ids ! i \<noteq> 0) t \<noteq> [])"
  by (auto simp: boundary_pairs_def tri_pairs_mem)

lemma boundaryNeis_keys:
  "fst ` set (boundaryNeis ids tris) =
     {b. ids ! b = 0 \<and> (\<exists>t\<in>set tris. b \<in> set t \<and> (\<exists>i\<in>set t. ids ! i \<noteq> 0))}"
proof -
  have "fst ` set (boundary_pairs ids tris) =
     {b. ids ! b = 0 \<and> (\<exists>t\<in>set tris. b \<in> set t \<and> (\<exists>i\<in>set t. ids ! i \<noteq> 0))}"
  proof (rule set_eqI)
    fix b
    have "b \<in> fst ` set (boundary_pairs ids tris) \<longleftrightarrow> (\<exists>ins. (b, ins) \<in> set (boundary_pairs ids tris))"
      by force
    also have "\<dots> \<longleftrightarrow> ids ! b = 0 \<and> (\<exists>t\<in>set tris. b \<in> set t \<and> (\<exists>i\<in>set t. ids ! i \<noteq> 0))"
      by (auto simp: boundary_pairs_mem filter_empty_conv)
    finally show "b \<in> fst ` set (boundary_pairs ids tris) \<longleftrightarrow>
        b \<in> {b. ids ! b = 0 \<and> (\<exists>t\<in>set tris. b \<in> set t \<and> (\<exists>i\<in>set t. ids ! i \<noteq> 0))}"
      by simp
  qed
  then show ?thesis by (simp add: boundaryNeis_def foldl_add_nei_keys)
qed

lemma boundaryNeis_distinct_keys: "distinct (map fst (boundaryNeis ids tris))"
  by (simp add: boundaryNeis_def foldl_add_nei_distinct_keys)


lemma boundaryNeis_nei_set:
  assumes "ids ! b = 0"
  shows "nei_set (boundaryNeis ids tris) b = inside_neighbours ids tris b"
proof -
  have e: "nei_set [] b = {}" by (simp add: nei_set_def)
  have "nei_set (boundaryNeis ids tris) b
          = \<Union> {set ins | ins. (b, ins) \<in> set (boundary_pairs ids tris)}"
    unfolding boundaryNeis_def foldl_add_nei_nei_set e by simp
  also have "\<dots> = inside_neighbours ids tris b"
  proof (rule set_eqI)
    fix i
    have "i \<in> \<Union> {set ins | ins. (b, ins) \<in> set (boundary_pairs ids tris)}
            \<longleftrightarrow> (\<exists>ins. (b, ins) \<in> set (boundary_pairs ids tris) \<and> i \<in> set ins)"
      by auto
    also have "\<dots> \<longleftrightarrow> (\<exists>t\<in>set tris. b \<in> set t \<and> i \<in> set t \<and> ids ! i \<noteq> 0)"
    proof
      assume "\<exists>ins. (b, ins) \<in> set (boundary_pairs ids tris) \<and> i \<in> set ins"
      then show "\<exists>t\<in>set tris. b \<in> set t \<and> i \<in> set t \<and> ids ! i \<noteq> 0"
        by (auto simp: boundary_pairs_mem)
    next
      assume "\<exists>t\<in>set tris. b \<in> set t \<and> i \<in> set t \<and> ids ! i \<noteq> 0"
      then obtain t where t: "t \<in> set tris" "b \<in> set t" "i \<in> set t" "ids ! i \<noteq> 0" by blast
      let ?ins = "remdups (filter (\<lambda>i. ids ! i \<noteq> 0) t)"
      have "(b, ?ins) \<in> set (boundary_pairs ids tris)"
        unfolding boundary_pairs_mem using t assms by (auto simp: filter_empty_conv)
      moreover have "i \<in> set ?ins" using t by simp
      ultimately show "\<exists>ins. (b, ins) \<in> set (boundary_pairs ids tris) \<and> i \<in> set ins" by blast
    qed
    also have "\<dots> \<longleftrightarrow> i \<in> inside_neighbours ids tris b"
      by (auto simp: inside_neighbours_def split: if_splits)
    finally show "i \<in> \<Union> {set ins | ins. (b, ins) \<in> set (boundary_pairs ids tris)}
            \<longleftrightarrow> i \<in> inside_neighbours ids tris b" .
  qed
  finally show ?thesis .
qed

lemma boundaryNeis_values_inside:
  assumes "(b, neis) \<in> set (boundaryNeis ids tris)" and "i \<in> set neis"
  shows "ids ! i \<noteq> 0"
proof -
  have k: "b \<in> fst ` set (boundaryNeis ids tris)" using assms(1) by force
  then have b0: "ids ! b = 0" by (simp add: boundaryNeis_keys)
  have "map_of (boundaryNeis ids tris) b = Some neis"
    using assms(1) boundaryNeis_distinct_keys by simp
  then have "nei_set (boundaryNeis ids tris) b = set neis" by (simp add: nei_set_def)
  then have "i \<in> inside_neighbours ids tris b" using assms(2) b0 boundaryNeis_nei_set by blast
  then show ?thesis by (auto simp: inside_neighbours_def split: if_splits)
qed

lemma boundaryNeis_keys_lt:
  assumes "list_all (valid_tri ids) tris"
  shows "\<forall>p\<in>set (boundaryNeis ids tris). fst p < length ids"
proof
  fix p assume "p \<in> set (boundaryNeis ids tris)"
  then have "fst p \<in> fst ` set (boundaryNeis ids tris)" by simp
  then obtain t where "t \<in> set tris" "fst p \<in> set t" by (auto simp: boundaryNeis_keys)
  then show "fst p < length ids" using assms by (auto simp: list_all_iff valid_tri_def)
qed

lemma boundaryNeis_separated:
  "\<forall>p\<in>set (boundaryNeis ids tris). \<forall>i\<in>set (snd p). i \<notin> fst ` set (boundaryNeis ids tris)"
proof (intro ballI)
  fix p i assume p: "p \<in> set (boundaryNeis ids tris)" and i: "i \<in> set (snd p)"
  have "ids ! i \<noteq> 0" using boundaryNeis_values_inside[of "fst p" "snd p" ids tris i] p i by simp
  then show "i \<notin> fst ` set (boundaryNeis ids tris)" by (simp add: boundaryNeis_keys)
qed

section \<open>The in-place repair of the labels\<close>

lemma repaired_length: "length (repaired d ids) = length ids"
  by (induction d ids rule: repaired.induct) simp_all

lemma repaired_nth:
  assumes "distinct (map fst d)"
    and "\<forall>p\<in>set d. \<forall>i\<in>set (snd p). i \<notin> fst ` set d"
    and "\<forall>p\<in>set d. fst p < length ids"
  shows "repaired d ids ! v =
     (case map_of d v of None \<Rightarrow> ids ! v
      | Some neis \<Rightarrow> store_int (exact_mean (map (\<lambda>i. ids ! i) neis)))"
  using assms
proof (induction d ids rule: repaired.induct)
  case (1 ids)
  show ?case by simp
next
  case (2 b neis d ids)
  let ?val = "store_int (exact_mean (map (\<lambda>i. ids ! i) neis))"
  let ?ids' = "ids[b := ?val]"
  have bnot: "b \<notin> fst ` set d" using "2.prems"(1) by auto
  have d1: "distinct (map fst d)" using "2.prems"(1) by simp
  have d2: "\<forall>p\<in>set d. \<forall>i\<in>set (snd p). i \<notin> fst ` set d" using "2.prems"(2) by auto
  have d3: "\<forall>p\<in>set d. fst p < length ?ids'" using "2.prems"(3) by simp
  have IH: "repaired d ?ids' ! v =
     (case map_of d v of None \<Rightarrow> ?ids' ! v
      | Some ns \<Rightarrow> store_int (exact_mean (map (\<lambda>i. ?ids' ! i) ns)))"
    using "2.IH"[OF d1 d2 d3] .
  have unchanged: "map (\<lambda>i. ?ids' ! i) ns = map (\<lambda>i. ids ! i) ns"
    if "(k, ns) \<in> set d" for k ns
  proof (rule map_cong[OF refl])
    fix i assume "i \<in> set ns"
    then have "i \<noteq> b" using "2.prems"(2) that by fastforce
    then show "?ids' ! i = ids ! i" by simp
  qed
  show ?case
  proof (cases "v = b")
    case True
    have "map_of d v = None" using True bnot by (simp add: map_of_eq_None_iff)
    moreover have "b < length ids" using "2.prems"(3) by simp
    ultimately show ?thesis using IH True by simp
  next
    case False
    show ?thesis
    proof (cases "map_of d v")
      case None
      then show ?thesis using IH False by simp
    next
      case (Some ns)
      then have "(v, ns) \<in> set d" by (rule map_of_SomeD)
      then show ?thesis using IH False Some unchanged by simp
    qed
  qed
qed



text \<open>
  The order in which Python iterates over the dictionary does not matter: any listing
  of its items gives the same repaired labels.
\<close>

lemma repaired_any_order:
  assumes valid: "list_all (valid_tri ids) tris"
    and same: "set d = set (boundaryNeis ids tris)" and dist: "distinct (map fst d)"
  shows "repaired d ids = repaired (boundaryNeis ids tris) ids"
proof (rule nth_equalityI)
  show "length (repaired d ids) = length (repaired (boundaryNeis ids tris) ids)"
    by (simp add: repaired_length)
next
  fix v assume "v < length (repaired d ids)"
  let ?d = "boundaryNeis ids tris"
  have m: "map_of d = map_of ?d"
    using map_of_inject_set[OF dist boundaryNeis_distinct_keys] same by blast
  have "repaired d ids ! v =
     (case map_of d v of None \<Rightarrow> ids ! v
      | Some neis \<Rightarrow> store_int (exact_mean (map (\<lambda>i. ids ! i) neis)))"
    using repaired_nth[OF dist, of ids v] boundaryNeis_separated[of ids tris]
      boundaryNeis_keys_lt[OF valid] same by simp
  moreover have "repaired ?d ids ! v =
     (case map_of ?d v of None \<Rightarrow> ids ! v
      | Some neis \<Rightarrow> store_int (exact_mean (map (\<lambda>i. ids ! i) neis)))"
    by (rule repaired_nth[OF boundaryNeis_distinct_keys boundaryNeis_separated
          boundaryNeis_keys_lt[OF valid]])
  ultimately show "repaired d ids ! v = repaired ?d ids ! v" using m by simp
qed

section \<open>The repair loop and its float64 means\<close>










section \<open>What a successful construction yields\<close>





section \<open>The example mesh, constructed\<close>









lemmas ev =
  ex_construct_def construct_def ex_triangles_def ex_coordinates_def ex_angles_def ex_eccens_def
  orient_def column_def broadcast2_def build_inverse_def area_keys_def area_tris_def
  tri_labels_def valid_tri_def Mesh_def zs_rows_def boundaryNeis_def boundary_pairs_def
  tri_pairs_def np_mean_def store_int_def int64_labels_def mean_exact_def

text \<open>
  Labels beyond the range of exact float64 means, or beyond int64, are not constructed
  by the embedding: it says nothing of what the code stores for them.
\<close>

lemma ex_construct_out_of_range:
  "ex_construct [0, 2 ^ 53 + 1, 2 ^ 53 + 1] = Inl Unmodelled"
  "ex_construct [0, 2 ^ 63, 1] = Inl Unmodelled"
  by (simp_all add: ev)

section \<open>Inverse meshes (C1)\<close>




section \<open>Boundary repair (C2, C10)\<close>









section \<open>Points outside the forward mesh (C5)\<close>

lemma cortex_points_nth:
  assumes "length xs = length ys" and "k < length xs"
  shows "\<exists>pts. cortex_points tx xs (Seq ys) = Inr pts \<and> length pts = length xs
           \<and> pts ! k = transformed_point tx (xs ! k, ys ! k)"
  using assms by (cases tx) (simp_all add: cortex_points_def transformed_point_def)

lemma cortex_to_angle_seq_row:
  assumes p: "cortex_points (itransform self) xs y = Inr pts" and k: "k < length pts"
    and n: "ip (forward self) (pts ! k) (map real_of_int (data_id self)) = None"
  shows "\<exists>rows. cortex_to_angle_seq ip self xs y = (Inr rows, self) \<and> length rows = length pts
           \<and> rows ! k = (Some 0, Some 0, Some 0)"
  using assms by (simp add: cortex_to_angle_seq_def Let_def interpolate_def)

text \<open>
  Claim C5. When the interpolator has no value for the area field at the (inverse
  transformed) position of a query point, \<^verbatim>\<open>cortex_to_angle\<close> returns the triple
  \<open>(0, 0, 0)\<close> for that point: as row \<open>k\<close> of the result for two sequences of one
  length, and as the result for two scalars.
\<close>

theorem cortex_to_angle_outside_hull:
  "(length xs = length ys \<and> k < length xs
      \<and> ip (forward self) (transformed_point (itransform self) (xs ! k, ys ! k))
           (map real_of_int (data_id self)) = None
     \<longrightarrow> (\<exists>rows. fst (cortex_to_angle ip self (Seq xs) (Seq ys)) = Inr (Rows rows)
            \<and> length rows = length xs \<and> rows ! k = (Some 0, Some 0, Some 0)))
   \<and> (ip (forward self) (transformed_point (itransform self) (x, y))
           (map real_of_int (data_id self)) = None
     \<longrightarrow> fst (cortex_to_angle ip self (Scalar x) (Scalar y)) = Inr (Row (Some 0, Some 0, Some 0)))"
proof (intro conjI impI)
  assume a: "length xs = length ys \<and> k < length xs
      \<and> ip (forward self) (transformed_point (itransform self) (xs ! k, ys ! k))
           (map real_of_int (data_id self)) = None"
  then obtain pts where pts: "cortex_points (itransform self) xs (Seq ys) = Inr pts"
      "length pts = length xs" "pts ! k = transformed_point (itransform self) (xs ! k, ys ! k)"
    using cortex_points_nth[of xs ys k "itransform self"] by auto
  then obtain rows where "cortex_to_angle_seq ip self xs (Seq ys) = (Inr rows, self)"
      "length rows = length pts" "rows ! k = (Some 0, Some 0, Some 0)"
    using cortex_to_angle_seq_row[of self xs "Seq ys" pts k ip] a by auto
  then show "\<exists>rows. fst (cortex_to_angle ip self (Seq xs) (Seq ys)) = Inr (Rows rows)
            \<and> length rows = length xs \<and> rows ! k = (Some 0, Some 0, Some 0)"
    using pts by simp
next
  assume a: "ip (forward self) (transformed_point (itransform self) (x, y))
           (map real_of_int (data_id self)) = None"
  obtain pts where pts: "cortex_points (itransform self) [x] (Seq [y]) = Inr pts"
      "length pts = length [x]" "pts ! 0 = transformed_point (itransform self) ([x] ! 0, [y] ! 0)"
    using cortex_points_nth[of "[x]" "[y]" 0 "itransform self"] by auto
  then obtain rows where r: "cortex_to_angle_seq ip self [x] (Seq [y]) = (Inr rows, self)"
      "length rows = length pts" "rows ! 0 = (Some 0, Some 0, Some 0)"
    using cortex_to_angle_seq_row[of self "[x]" "Seq [y]" pts 0 ip] a by auto
  then obtain r0 rs where "rows = r0 # rs" using pts by (cases rows) auto
  then show "fst (cortex_to_angle ip self (Scalar x) (Scalar y)) = Inr (Row (Some 0, Some 0, Some 0))"
    using r by simp
qed

text \<open>
  The theorem at the example mesh and the point \<open>(100, 100)\<close>, far outside the forward
  mesh.
\<close>

theorem cortex_to_angle_outside_hull_witness:
  "length [100 :: real] = length [100 :: real] \<and> (0 :: nat) < length [100 :: real]
   \<and> uncovered (forward (ex_model [0, 1, 1]))
        (transformed_point (itransform (ex_model [0, 1, 1])) ([100] ! 0, [100] ! 0))
        (map real_of_int (data_id (ex_model [0, 1, 1]))) = None
   \<and> fst (cortex_to_angle uncovered (ex_model [0, 1, 1]) (Seq [100]) (Seq [100]))
        = Inr (Rows [(Some 0, Some 0, Some 0)])
   \<and> fst (cortex_to_angle uncovered (ex_model [0, 1, 1]) (Scalar 100) (Scalar 100))
        = Inr (Row (Some 0, Some 0, Some 0))"
proof -
  have u: "uncovered (forward (ex_model [0, 1, 1]))
        (transformed_point (itransform (ex_model [0, 1, 1])) ([100] ! 0, [100] ! 0))
        (map real_of_int (data_id (ex_model [0, 1, 1]))) = None"
    by (simp add: uncovered_def)
  have u': "uncovered (forward (ex_model [0, 1, 1]))
        (transformed_point (itransform (ex_model [0, 1, 1])) (100, 100))
        (map real_of_int (data_id (ex_model [0, 1, 1]))) = None"
    by (simp add: uncovered_def)
  from cortex_to_angle_outside_hull[of "[100]" "[100]" 0 uncovered "ex_model [0, 1, 1]" 100 100]
  obtain rows where r: "fst (cortex_to_angle uncovered (ex_model [0, 1, 1]) (Seq [100]) (Seq [100]))
        = Inr (Rows rows)" "length rows = length [100 :: real]" "rows ! 0 = (Some 0, Some 0, Some 0)"
    and s: "fst (cortex_to_angle uncovered (ex_model [0, 1, 1]) (Scalar 100) (Scalar 100))
        = Inr (Row (Some 0, Some 0, Some 0))"
    using u u' by auto
  have "rows = [(Some 0, Some 0, Some 0)]" using r(2,3) by (cases rows) auto
  then show ?thesis using r(1) s u by simp
qed

section \<open>Queries leave the model as it is (C9)\<close>

lemma cortex_to_angle_seq_frame: "snd (cortex_to_angle_seq ip self xs y) = self"
  by (simp add: cortex_to_angle_seq_def Let_def split: sum.splits)

lemma angle_to_cortex_seq_frame: "snd (angle_to_cortex_seq ip self ts rho) = self"
  by (simp add: angle_to_cortex_seq_def split: sum.splits option.splits)

text \<open>
  Claim C9. Whatever the arguments and whatever the outcome, the object that
  \<^verbatim>\<open>cortex_to_angle\<close> and \<^verbatim>\<open>angle_to_cortex\<close> leave behind is the object they were
  called on: forward mesh, inverse meshes, data arrays, transform and its inverse.
\<close>

theorem queries_leave_model_unchanged:
  "snd (cortex_to_angle ip self x y) = self \<and> snd (angle_to_cortex ip self theta rho) = self"
proof
  show "snd (cortex_to_angle ip self x y) = self"
  proof (cases x)
    case (Scalar xv)
    show ?thesis
    proof (cases y)
      case (Scalar yv)
      have "snd (cortex_to_angle_seq ip self [xv] (Seq [yv])) = self"
        by (rule cortex_to_angle_seq_frame)
      then show ?thesis using \<open>x = Scalar xv\<close> Scalar
        by (auto split: prod.splits sum.splits list.splits)
    next
      case (Seq ys)
      then show ?thesis using \<open>x = Scalar xv\<close> by simp
    qed
  next
    case (Seq xs)
    have "snd (cortex_to_angle_seq ip self xs y) = self" by (rule cortex_to_angle_seq_frame)
    then show ?thesis using Seq by (auto split: prod.splits sum.splits)
  qed
  show "snd (angle_to_cortex ip self theta rho) = self"
  proof (cases theta)
    case (Scalar t)
    show ?thesis
    proof (cases rho)
      case (Scalar r)
      have "snd (angle_to_cortex_seq ip self [t] (Seq [r])) = self"
        by (rule angle_to_cortex_seq_frame)
      then show ?thesis using \<open>theta = Scalar t\<close> Scalar
        by (auto split: prod.splits sum.splits)
    next
      case (Seq rs)
      then show ?thesis using \<open>theta = Scalar t\<close> by simp
    qed
  next
    case (Seq ts)
    have "snd (angle_to_cortex_seq ip self ts rho) = self" by (rule angle_to_cortex_seq_frame)
    then show ?thesis using Seq by (auto split: prod.splits sum.splits)
  qed
qed

section \<open>Sequences of unequal length, scalars with sequences (C3, C4)\<close>

text \<open>
  \<^verbatim>\<open>SchiraModel\<close> checks the lengths and broadcasts a scalar itself.
\<close>

lemma schira_length_mismatch:
  assumes "length vs \<noteq> length ws"
  shows "schira_angle_to_cortex jarr jsc (Seq vs) (Seq ws)
           = Inl (RuntimeError ''Arguments theta and rho must be the same length!'')"
    and "schira_cortex_to_angle jarr jsc (Seq vs) (Seq ws)
           = Inl (RuntimeError ''Arguments x and y must be the same length!'')"
  using assms by (simp_all add: schira_angle_to_cortex_def schira_cortex_to_angle_def)

lemma schira_broadcast:
  "schira_angle_to_cortex jarr jsc (Seq vs) (Scalar w)
     = schira_angle_to_cortex jarr jsc (Seq vs) (Seq (replicate (length vs) w))"
  "schira_angle_to_cortex jarr jsc (Scalar v) (Seq ws)
     = schira_angle_to_cortex jarr jsc (Seq (replicate (length ws) v)) (Seq ws)"
  "schira_cortex_to_angle jarr jsc (Seq vs) (Scalar w)
     = schira_cortex_to_angle jarr jsc (Seq vs) (Seq (replicate (length vs) w))"
  "schira_cortex_to_angle jarr jsc (Scalar v) (Seq ws)
     = schira_cortex_to_angle jarr jsc (Seq (replicate (length ws) v)) (Seq ws)"
  by (simp_all add: schira_angle_to_cortex_def schira_cortex_to_angle_def map_replicate_const)

text \<open>
  \<^verbatim>\<open>RetinotopyMeshModel.angle_to_cortex\<close> leaves unequal lengths to numpy, which raises
  ValueError unless one of the two sequences has length one.
\<close>

lemma mesh_unequal_lengths_numpy:
  assumes "length ts \<noteq> length rs" and "length ts \<noteq> 1" and "length rs \<noteq> 1"
  shows "fst (angle_to_cortex ip self (Seq ts) (Seq rs)) = Inl ValueError"
  using assms by (simp add: angle_to_cortex_seq_def query_zs_def broadcast2_def)

text \<open>
  Claim C3 at a failing input. \<^verbatim>\<open>RetinotopyMeshModel.angle_to_cortex\<close> has no length
  check: with \<open>theta = [0]\<close> and \<open>rho = [1, 2]\<close> numpy broadcasts the shorter sequence,
  and the call returns one row of two pairs for the single area of the example mesh,
  whatever the interpolator yields.
\<close>

theorem mesh_unequal_lengths_return:
  "\<exists>res. built_angle_to_cortex ip (ex_construct [1, 1, 1]) (Seq [0]) (Seq [1, 2]) = Inr (Grid res)
     \<and> map length res = [2]"
  by (simp add: ev built_angle_to_cortex_def built_label_def angle_to_cortex_seq_def query_zs_def
      data_areas_def transpose_021_def interpolate_def uncovered_def rho_at_def zs_points_def)

text \<open>
  Claim C4 at a failing input. With \<open>theta = [0, 0]\<close> and the scalar \<open>rho = 1\<close>, on a
  model whose inverse meshes cover no query point, \<^verbatim>\<open>rho[k]\<close> at line 245 indexes a
  zero-dimensional array and raises IndexError; with \<open>rho = [1, 1]\<close> the same call
  returns the array of "no value" pairs.
\<close>

theorem mesh_scalar_rho_not_broadcast:
  "built_angle_to_cortex uncovered (ex_construct [0, 1, 2]) (Seq [0, 0]) (Scalar 1) = Inl IndexError
   \<and> built_angle_to_cortex uncovered (ex_construct [0, 1, 2]) (Seq [0, 0]) (Seq [1, 1])
       = Inr (Grid [[(None, None), (None, None)], [(None, None), (None, None)]])"
  by (simp add: ev built_angle_to_cortex_def built_label_def angle_to_cortex_seq_def query_zs_def
      data_areas_def transpose_021_def interpolate_def uncovered_def rho_at_def zs_points_def)

section \<open>What a returned result of \<^verbatim>\<open>angle_to_cortex\<close> looks like\<close>

text \<open>
  When the body of \<^verbatim>\<open>angle_to_cortex\<close> returns, the result has one row per distinct
  non-zero stored label, in increasing order of the labels (\<open>data_areas\<close> is sorted), and
  every row has one pair per query point.
\<close>

lemma data_areas_props:
  "sorted (data_areas ids)" "distinct (data_areas ids)" "set (data_areas ids) = set ids - {0}"
  by (auto simp: data_areas_def sorted_filter[where f = id, simplified])

lemma data_areas_length: "length (data_areas ids) = card (set ids - {0})"
  using data_areas_props(2,3)[of ids] distinct_card by fastforce

lemma area_rows_shape:
  "area_rows ip self coords areas = Inr raw \<Longrightarrow>
     length raw = length areas
     \<and> (\<forall>i<length raw. \<exists>m. inverse self (areas ! i) = Some m
            \<and> raw ! i = (interpolate ip m coords (data_x self), interpolate ip m coords (data_y self)))"
proof (induction areas arbitrary: raw)
  case Nil
  then show ?case by simp
next
  case (Cons a areas)
  from Cons.prems obtain m rest where m: "inverse self a = Some m"
    and rest: "area_rows ip self coords areas = Inr rest"
    and raw: "raw = (interpolate ip m coords (data_x self), interpolate ip m coords (data_y self)) # rest"
    by (auto split: option.splits sum.splits)
  have IH: "length rest = length areas
     \<and> (\<forall>i<length rest. \<exists>m. inverse self (areas ! i) = Some m
            \<and> rest ! i = (interpolate ip m coords (data_x self), interpolate ip m coords (data_y self)))"
    using Cons.IH[OF rest] .
  show ?case
  proof (intro conjI allI impI)
    show "length raw = length (a # areas)" using IH raw by simp
  next
    fix i assume "i < length raw"
    then show "\<exists>m. inverse self ((a # areas) ! i) = Some m
        \<and> raw ! i = (interpolate ip m coords (data_x self), interpolate ip m coords (data_y self))"
      using IH raw m by (cases i) auto
  qed
qed

lemma map_err_shape:
  "map_err f vs = Inr ws \<Longrightarrow> length ws = length vs \<and> (\<forall>i<length vs. f (vs ! i) = Inr (ws ! i))"
proof (induction vs arbitrary: ws)
  case Nil
  then show ?case by simp
next
  case (Cons v vs)
  from Cons.prems obtain w ws' where w: "f v = Inr w" and r: "map_err f vs = Inr ws'"
    and ws: "ws = w # ws'"
    by (auto split: sum.splits)
  have IH: "length ws' = length vs \<and> (\<forall>i<length vs. f (vs ! i) = Inr (ws' ! i))"
    using Cons.IH[OF r] .
  show ?case
  proof (intro conjI allI impI)
    show "length ws = length (v # vs)" using IH ws by simp
  next
    fix i assume "i < length (v # vs)"
    then show "f ((v # vs) ! i) = Inr (ws ! i)" using IH ws w by (cases i) auto
  qed
qed

lemma angle_to_cortex_seq_InrD:
  assumes "fst (angle_to_cortex_seq ip self ts rho) = Inr res"
  shows "\<exists>zs raw res0. query_zs ts rho = Inr zs
      \<and> area_rows ip self (zs_points zs) (data_areas (data_id self)) = Inr raw
      \<and> raw \<noteq> [] \<and> res0 = map (\<lambda>(vx, vy). zip vx vy) raw
      \<and> (case transform self of None \<Rightarrow> Inr res0
          | Some t \<Rightarrow> map_err (map_err (apply_tx t)) res0) = Inr res
      \<and> scan_areas rho res = None"
  using assms
  by (auto simp: angle_to_cortex_seq_def transpose_021_def split: sum.splits option.splits if_splits)

lemma query_zs_length:
  "query_zs ts rho = Inr zs \<Longrightarrow> rho = Scalar r \<or> (rho = Seq rs \<and> length rs = length ts)
     \<Longrightarrow> length zs = length ts"
  by (auto simp: query_zs_def broadcast2_def)

lemma angle_to_cortex_seq_shape:
  assumes r: "fst (angle_to_cortex_seq ip self ts rho) = Inr res"
    and z: "query_zs ts rho = Inr zs"
  shows "length res = card (set (data_id self) - {0})
     \<and> 0 < length res
     \<and> (\<forall>adat\<in>set res. length adat = length zs)"
proof -
  from angle_to_cortex_seq_InrD[OF r] z obtain raw res0 where
    raw: "area_rows ip self (zs_points zs) (data_areas (data_id self)) = Inr raw"
    and ne: "raw \<noteq> []" and res0: "res0 = map (\<lambda>(vx, vy). zip vx vy) raw"
    and tx: "(case transform self of None \<Rightarrow> Inr res0
          | Some t \<Rightarrow> map_err (map_err (apply_tx t)) res0) = Inr res"
    by auto
  have shape: "length raw = length (data_areas (data_id self))"
    "\<forall>i<length raw. \<exists>m. inverse self (data_areas (data_id self) ! i) = Some m
        \<and> raw ! i = (interpolate ip m (zs_points zs) (data_x self),
                     interpolate ip m (zs_points zs) (data_y self))"
    using area_rows_shape[OF raw] by auto
  have l0: "length res0 = length raw" using res0 by simp
  have rows0: "length (res0 ! i) = length zs" if lt: "i < length res0" for i
  proof -
    obtain m where "raw ! i = (interpolate ip m (zs_points zs) (data_x self),
                     interpolate ip m (zs_points zs) (data_y self))"
      using shape(2) lt l0 by auto
    then show ?thesis using res0 lt l0 by (simp add: interpolate_def zs_points_def)
  qed
  have "length res = length res0 \<and> (\<forall>i<length res. length (res ! i) = length zs)"
  proof (cases "transform self")
    case None
    then have "res = res0" using tx by simp
    then show ?thesis using rows0 by simp
  next
    case (Some t)
    then have m: "map_err (map_err (apply_tx t)) res0 = Inr res" using tx by simp
    have a: "length res = length res0"
      and b: "\<forall>i<length res0. map_err (apply_tx t) (res0 ! i) = Inr (res ! i)"
      using map_err_shape[OF m] by auto
    have "length (res ! i) = length zs" if lt: "i < length res" for i
    proof -
      have "map_err (apply_tx t) (res0 ! i) = Inr (res ! i)" using b lt a by simp
      then have "length (res ! i) = length (res0 ! i)" using map_err_shape by blast
      then show ?thesis using rows0 lt a by simp
    qed
    then show ?thesis using a by simp
  qed
  then have "length res = length (data_areas (data_id self))"
    and all: "\<forall>adat\<in>set res. length adat = length zs"
    using l0 shape(1) by (auto simp: in_set_conv_nth)
  moreover have "0 < length res" using \<open>length res = length res0 \<and> _\<close> l0 ne by simp
  ultimately show ?thesis by (simp add: data_areas_length)
qed

text \<open>
  A returned result holds a "no value" pair only where \<open>rho\<close> is outside the band
  \<open>(86, 90]\<close>: inside the band the loop of line 243 never gets past line 247.
\<close>

lemma scan_rows_None:
  "scan_rows rho k rows = None \<Longrightarrow> j < length rows
     \<Longrightarrow> fst (rows ! j) = None \<or> snd (rows ! j) = None
     \<Longrightarrow> \<exists>r. rho_at rho (k + j) = Inr r \<and> \<not> (86 < r \<and> r \<le> 90)"
proof (induction rows arbitrary: k j)
  case Nil
  then show ?case by simp
next
  case (Cons row rows)
  show ?case
  proof (cases j)
    case 0
    then show ?thesis using Cons.prems by (auto split: sum.splits if_splits)
  next
    case (Suc j')
    have "scan_rows rho (Suc k) rows = None"
      using Cons.prems(1) by (auto split: sum.splits if_splits)
    then have "\<exists>r. rho_at rho (Suc k + j') = Inr r \<and> \<not> (86 < r \<and> r \<le> 90)"
      using Cons.IH[of "Suc k" j'] Cons.prems(2,3) Suc by simp
    then show ?thesis using Suc by simp
  qed
qed

lemma scan_areas_None:
  "scan_areas rho res = None \<Longrightarrow> adat \<in> set res \<Longrightarrow> scan_rows rho 0 adat = None"
  by (induction res) (auto split: option.splits)

lemma angle_to_cortex_seq_no_retry:
  assumes r: "fst (angle_to_cortex_seq ip self ts (Seq rs)) = Inr res"
    and a: "adat \<in> set res" and j: "j < length adat"
    and n: "fst (adat ! j) = None \<or> snd (adat ! j) = None"
  shows "j < length rs \<and> \<not> (86 < rs ! j \<and> rs ! j \<le> 90)"
proof -
  have "scan_areas (Seq rs) res = None" using angle_to_cortex_seq_InrD[OF r] by auto
  then have "scan_rows (Seq rs) 0 adat = None" using a by (rule scan_areas_None)
  then obtain v where "rho_at (Seq rs) (0 + j) = Inr v" "\<not> (86 < v \<and> v \<le> 90)"
    using scan_rows_None[OF _ j n] by blast
  then show ?thesis by (auto simp: rho_at_def split: if_splits)
qed

section \<open>Visual-field encoding (C8)\<close>









section \<open>The fallback near the edge of the visual field (C6)\<close>

text \<open>
  Claim C6 at a failing input. On a model whose inverse meshes cover no query point,
  the query \<open>(0, 89)\<close> reaches line 247 and raises NameError instead of retrying at
  \<open>88.5\<close>, as a scalar and as a sequence of length one; the query \<open>(0, 85)\<close>, outside
  the band, returns the "no value" pairs.
\<close>

theorem fallback_raises_NameError:
  "built_angle_to_cortex uncovered (ex_construct [0, 1, 2]) (Scalar 0) (Scalar 89) = Inl NameError
   \<and> built_angle_to_cortex uncovered (ex_construct [0, 1, 2]) (Seq [0]) (Seq [89]) = Inl NameError
   \<and> built_angle_to_cortex uncovered (ex_construct [0, 1, 2]) (Scalar 0) (Scalar 85)
       = Inr (Pairs [(None, None), (None, None)])"
  by (simp add: ev built_angle_to_cortex_def built_label_def angle_to_cortex_seq_def query_zs_def
      data_areas_def transpose_021_def interpolate_def uncovered_def rho_at_def zs_points_def)

section \<open>The areas of a result (C7)\<close>

text \<open>
  Claim C7 at a failing input. With labels \<open>[0, 1, 3]\<close> the boundary repair stores
  label 2 for vertex 0. \<^verbatim>\<open>angle_to_cortex\<close> enumerates the areas from the repaired
  labels, \<open>[1, 2, 3]\<close>, while the inverse meshes are keyed by the input labels 1 and 3:
  \<^verbatim>\<open>self.inverse[2]\<close> raises KeyError, whatever the interpolator yields.
\<close>

theorem repaired_label_without_inverse_mesh:
  "built_label (ex_construct [0, 1, 3]) 0 = Some 2
   \<and> built_angle_to_cortex ip (ex_construct [0, 1, 3]) (Scalar 0) (Scalar 1) = Inl KeyError
   \<and> built_angle_to_cortex ip (ex_construct [0, 1, 3]) (Seq [0]) (Seq [1]) = Inl KeyError"
  by (simp add: ev built_angle_to_cortex_def built_label_def angle_to_cortex_seq_def query_zs_def
      data_areas_def transpose_021_def interpolate_def uncovered_def rho_at_def zs_points_def)

end
